theory Spec2Isabelle
  imports Complex_Main
begin

section \<open>Common conventions\<close>

text \<open>
  JavaScript numbers are modelled as exact reals (\<open>real\<close>), integers that the code only
  counts with as \<open>nat\<close> or \<open>int\<close>, and strings as \<open>string\<close>. A value that may be
  \<open>undefined\<close> is an \<open>option\<close>.
\<close>

subsection \<open>String helpers of the JavaScript library\<close>

definition startsWith :: "string \<Rightarrow> string \<Rightarrow> bool" where
  "startsWith s p = (take (length p) s = p)"

definition endsWith :: "string \<Rightarrow> string \<Rightarrow> bool" where
  "endsWith s p = (length p \<le> length s \<and> drop (length s - length p) s = p)"

definition isDigit :: "char \<Rightarrow> bool" where
  "isDigit c = (c \<in> set ''0123456789'')"

text \<open>\<open>s.split(' ')\<close>: the fields between single spaces; always at least one field.\<close>

fun split_space :: "string \<Rightarrow> string list" where
  "split_space [] = [[]]"
| "split_space (c # cs) =
     (if c = CHR '' '' then [] # split_space cs
      else (case split_space cs of
              [] \<Rightarrow> [[c]]
            | p # ps \<Rightarrow> (c # p) # ps))"

text \<open>\<open>s.replace(/:/g, '.')\<close>\<close>

definition replace_colons :: "string \<Rightarrow> string" where
  "replace_colons s = map (\<lambda>c. if c = CHR '':'' then CHR ''.'' else c) s"

text \<open>
  \<open>s.replace(/\s+/g, '')\<close>: every whitespace character is removed. The characters of the
  model are bytes, so the class \<open>\s\<close> is its ASCII part: space, tab, line feed, vertical
  tab, form feed and carriage return.
\<close>

definition isSpace :: "char \<Rightarrow> bool" where
  "isSpace c = (c \<in> set [CHR '' '', CHR 0x09, CHR 0x0A, CHR 0x0B, CHR 0x0C, CHR 0x0D])"

definition strip_whitespace :: "string \<Rightarrow> string" where
  "strip_whitespace s = filter (\<lambda>c. \<not> isSpace c) s"

text \<open>\<open>String(n)\<close> for a non-negative integer, and \<open>padStart(2, '0')\<close>.\<close>

fun showNat :: "nat \<Rightarrow> string" where
  "showNat n =
     (if n < 10 then [''0123456789'' ! n]
      else showNat (n div 10) @ [''0123456789'' ! (n mod 10)])"

declare showNat.simps [simp del]

definition padStart2 :: "string \<Rightarrow> string" where
  "padStart2 s = replicate (2 - length s) (CHR ''0'') @ s"

text \<open>
  \<open>x.toFixed(f)\<close> (ECMAScript Number.prototype.toFixed, for \<open>|x| < 10^21\<close>): the sign
  is split off, \<open>n\<close> is the integer nearest to \<open>|x| * 10^f\<close> (the larger one at a
  tie), and its decimal digits, left-padded with zeros to \<open>f + 1\<close> digits, get the point
  before the last \<open>f\<close>.
\<close>

definition toFixed :: "real \<Rightarrow> nat \<Rightarrow> string" where
  "toFixed x f =
     (let a = (if x < 0 then - x else x);
          n = nat \<lfloor>a * 10 ^ f + 1 / 2\<rfloor>;
          m = showNat n;
          m' = replicate (f + 1 - length m) (CHR ''0'') @ m;
          k = length m'
      in (if x < 0 then ''-'' else '''') @
         (if f \<noteq> 0 then take (k - f) m' @ ''.'' @ drop (k - f) m' else m))"

section \<open>utils/exif.ts\<close>

subsection \<open>Data\<close>

text \<open>
  A tag of the map returned by \<open>ExifReader.load\<close>: its \<open>description\<close> and its
  \<open>value\<close>, which the code only inspects for being an array of numbers.
\<close>

datatype tag_value = NumArray "real list" | NotArray

record tag =
  description :: string
  val :: tag_value

type_synonym tags = "string \<rightharpoonup> tag"

text \<open>The field \<open>make\<close> is \<open>exif_make\<close> here (the record package owns the name \<open>make\<close>).\<close>

record ExifData =
  exif_make :: string
  model :: string
  lens :: string
  focalLength :: string
  fNumber :: string
  iso :: string
  exposureTime :: string
  dateTime :: string
  gps :: "string option"
  lat :: "real option"
  lon :: "real option"

text \<open>What \<open>new Date()\<close> reads from the clock (\<open>getMonth\<close> counts from 0).\<close>

record clock =
  getFullYear :: nat
  getMonth :: nat
  getDate :: nat
  getHours :: nat
  getMinutes :: nat

subsection \<open>convertDMSToDecimal\<close>

definition convertDMSToDecimal :: "real list \<Rightarrow> string \<Rightarrow> real option" where
  "convertDMSToDecimal dms ref =
     (if length dms < 3 then None
      else
        let degrees = dms ! 0;
            minutes = dms ! 1;
            seconds = dms ! 2;
            decimal = degrees + minutes / 60 + seconds / 3600
        in Some (if ref = ''S'' \<or> ref = ''W'' then decimal * - 1 else decimal))"

subsection \<open>extractExifData\<close>

text \<open>\<open>tags[k]?.description || ''\<close>\<close>

definition desc :: "tags \<Rightarrow> string \<Rightarrow> string" where
  "desc t k = (case t k of None \<Rightarrow> '''' | Some tg \<Rightarrow> description tg)"

text \<open>\<open>a || b\<close> on strings: the empty string is falsy.\<close>

definition or_else :: "string \<Rightarrow> string \<Rightarrow> string" where
  "or_else a b = (if a \<noteq> [] then a else b)"

text \<open>\<open>tags[k]?.description?.[0] || d\<close>: the first character, as a string.\<close>

definition ref_of :: "tags \<Rightarrow> string \<Rightarrow> string \<Rightarrow> string" where
  "ref_of t k d = (case desc t k of [] \<Rightarrow> d | c # _ \<Rightarrow> [c])"

definition formatDate :: "clock \<Rightarrow> string \<Rightarrow> string" where
  "formatDate now dt =
     (if dt \<noteq> [] then
        (let parts = split_space dt
         in if length parts > 0
            then replace_colons (hd parts) @ '' '' @
                 (case tl parts of [] \<Rightarrow> '''' | p # _ \<Rightarrow> or_else p '''')
            else dt)
      else
        showNat (getFullYear now) @ ''.'' @ padStart2 (showNat (getMonth now + 1)) @ ''.'' @
        padStart2 (showNat (getDate now)) @ '' '' @ padStart2 (showNat (getHours now)) @
        '':'' @ padStart2 (showNat (getMinutes now)))"

text \<open>
  The GPS block. \<open>parseFloat\<close> is the platform's; it is a parameter that returns
  \<open>None\<close> for \<open>NaN\<close>.
\<close>

definition extractGps ::
  "(string \<Rightarrow> real option) \<Rightarrow> tags \<Rightarrow> string option \<times> real option \<times> real option" where
  "extractGps parseFloat t =
     (let latRef = ref_of t ''GPSLatitudeRef'' ''N'';
          lonRef = ref_of t ''GPSLongitudeRef'' ''E''
      in case (t ''GPSLatitude'', t ''GPSLongitude'') of
           (Some latTag, Some lonTag) \<Rightarrow>
             (let (la, lo) =
                    (case (val latTag, val lonTag) of
                       (NumArray lv, NumArray ov) \<Rightarrow>
                         (convertDMSToDecimal lv latRef, convertDMSToDecimal ov lonRef)
                     | _ \<Rightarrow> (parseFloat (description latTag), parseFloat (description lonTag)))
              in case (la, lo) of
                   (Some a, Some b) \<Rightarrow> (Some (toFixed a 4 @ '', '' @ toFixed b 4), la, lo)
                 | _ \<Rightarrow> (Some ''Location Data'', la, lo))
         | _ \<Rightarrow> (None, None, None))"

text \<open>
  \<open>extractExifData\<close> after \<open>ExifReader.load\<close> has returned the tag map \<open>t\<close>; \<open>now\<close>
  is the clock read by \<open>new Date()\<close>.
\<close>

definition extractExifData :: "(string \<Rightarrow> real option) \<Rightarrow> clock \<Rightarrow> tags \<Rightarrow> ExifData" where
  "extractExifData parseFloat now t =
     (let mk = desc t ''Make'';
          mdl = or_else (desc t ''Model'') ''Unknown Camera'';
          lns = or_else (desc t ''LensModel'') (desc t ''Lens'');
          fl = strip_whitespace (desc t ''FocalLength'');
          fn0 = desc t ''FNumber'';
          fn = (if fn0 \<noteq> [] \<and> \<not> startsWith fn0 ''f/'' then ''f/'' @ fn0 else fn0);
          is = desc t ''ISOSpeedRatings'';
          et0 = desc t ''ExposureTime'';
          et = (if et0 \<noteq> [] \<and> \<not> endsWith et0 ''s'' then et0 @ ''s'' else et0);
          dt = formatDate now (desc t ''DateTimeOriginal'');
          (gpsString, la, lo) = extractGps parseFloat t
      in \<lparr> exif_make = mk, model = mdl, lens = lns, focalLength = fl, fNumber = fn, iso = is,
           exposureTime = et, dateTime = dt, gps = gpsString, lat = la, lon = lo \<rparr>)"

section \<open>types.ts\<close>

datatype BannerStyle = BLACK | WHITE | BLUR | ADAPTIVE

datatype Side = Left | Right | Off

datatype Line = L1 | L2

datatype LogoPosition = LogoLeft | LogoRight

text \<open>The field \<open>id\<close> is \<open>elem_id\<close> here (\<open>id\<close> is HOL's identity function).\<close>

record WatermarkElement =
  elem_id :: string
  label :: string
  "text" :: string
  side :: Side
  line :: Line
  order :: int

text \<open>
  \<open>WatermarkSettings.elements\<close> is an object with exactly the eight keys below, so it is
  a total map on them; \<open>keys\<close> is the order in which \<open>Object.values\<close> and
  \<open>Object.entries\<close> enumerate it (the order of the object literal in \<open>App\<close>).
\<close>

datatype slot_key =
  K_model | K_lens | K_focalLength | K_fNumber | K_iso | K_exposureTime | K_date | K_gps

type_synonym elements_t = "slot_key \<Rightarrow> WatermarkElement"

definition keys :: "slot_key list" where
  "keys = [K_model, K_lens, K_focalLength, K_fNumber, K_iso, K_exposureTime, K_date, K_gps]"

definition entries :: "elements_t \<Rightarrow> (slot_key \<times> WatermarkElement) list" where
  "entries els = map (\<lambda>k. (k, els k)) keys"

definition values_of :: "elements_t \<Rightarrow> WatermarkElement list" where
  "values_of els = map els keys"

record WatermarkSettings =
  elements :: elements_t
  bannerStyle :: BannerStyle
  blurIntensity :: real
  useOriginalDate :: bool
  selectedLogoKey :: string
  customLogoSvg :: "string option"
  logoPosition :: LogoPosition
  useAdaptiveTextColor :: bool

section \<open>App: the settings updaters\<close>

subsection \<open>onDrop: the update passed to setSettings\<close>

definition set_text :: "slot_key \<Rightarrow> string \<Rightarrow> elements_t \<Rightarrow> elements_t" where
  "set_text k v els = els(k := (els k)\<lparr>text := v\<rparr>)"

definition onDrop_settings :: "ExifData \<Rightarrow> WatermarkSettings \<Rightarrow> WatermarkSettings" where
  "onDrop_settings data prev =
     prev\<lparr>elements :=
       (set_text K_gps (case gps data of None \<Rightarrow> '''' | Some g \<Rightarrow> or_else g '''')
       (set_text K_date (dateTime data)
       (set_text K_exposureTime (exposureTime data)
       (set_text K_iso (if iso data \<noteq> [] then ''ISO'' @ iso data else '''')
       (set_text K_fNumber (fNumber data)
       (set_text K_focalLength (focalLength data)
       (set_text K_lens (lens data)
       (set_text K_model (model data) (elements prev)))))))))\<rparr>"

subsection \<open>handleDrop\<close>

text \<open>\<open>xs.findIndex(p)\<close>, with \<open>None\<close> for \<open>-1\<close>.\<close>

fun findIndex :: "('a \<Rightarrow> bool) \<Rightarrow> 'a list \<Rightarrow> nat option" where
  "findIndex p [] = None"
| "findIndex p (x # xs) =
     (if p x then Some 0 else map_option Suc (findIndex p xs))"

text \<open>
  The \<open>forEach\<close> over \<open>newGroup\<close>: the entry at position \<open>index\<close> gets the target side
  and line and \<open>order = index\<close>.
\<close>

fun assign_orders ::
  "Side \<Rightarrow> Line \<Rightarrow> nat \<Rightarrow> (slot_key \<times> WatermarkElement) list \<Rightarrow> elements_t \<Rightarrow> elements_t" where
  "assign_orders s l index [] els = els"
| "assign_orders s l index ((k, _) # rest) els =
     assign_orders s l (Suc index) rest
       (els(k := (els k)\<lparr>side := s, line := l, order := int index\<rparr>))"

text \<open>
  \<open>handleDrop\<close> as a function of the dragged key (\<open>None\<close> when \<open>draggedId\<close> is null),
  the drop target and the previous settings. \<open>Array.prototype.sort\<close> is stable, as
  \<open>sort_key\<close> is.
\<close>

definition handleDrop ::
  "slot_key option \<Rightarrow> Side \<Rightarrow> Line \<Rightarrow> slot_key option \<Rightarrow> WatermarkSettings
     \<Rightarrow> WatermarkSettings" where
  "handleDrop draggedId targetSide targetLine targetId prev =
     (case draggedId of
        None \<Rightarrow> prev
      | Some d \<Rightarrow>
          if Some d = targetId then prev
          else
            let els = elements prev;
                draggedEl = els d;
                groupItems =
                  sort_key (\<lambda>(k, el). order el)
                    (filter (\<lambda>(k, el). side el = targetSide \<and> line el = targetLine \<and> k \<noteq> d)
                       (entries els));
                insertIndex =
                  (case targetId of
                     None \<Rightarrow> length groupItems
                   | Some t \<Rightarrow>
                       (case findIndex (\<lambda>(k, el). k = t) groupItems of
                          None \<Rightarrow> length groupItems
                        | Some idx \<Rightarrow> idx));
                newGroup = take insertIndex groupItems @ [(d, draggedEl)] @
                           drop insertIndex groupItems;
                els1 = assign_orders targetSide targetLine 0 newGroup els;
                els2 = els1(d := (els1 d)\<lparr>side := targetSide\<rparr>);
                els3 = els2(d := (els2 d)\<lparr>line := targetLine\<rparr>)
            in prev\<lparr>elements := els3\<rparr>)"

text \<open>
  Within every (side, line) group the \<open>order\<close> values are pairwise distinct.
\<close>

definition group_of :: "elements_t \<Rightarrow> Side \<Rightarrow> Line \<Rightarrow> slot_key list" where
  "group_of els s l = filter (\<lambda>k. side (els k) = s \<and> line (els k) = l) keys"

definition orders_distinct :: "elements_t \<Rightarrow> bool" where
  "orders_distinct els =
     (\<forall>s \<in> set [Left, Right, Off]. \<forall>l \<in> set [L1, L2].
        distinct (map (\<lambda>k. order (els k)) (group_of els s l)))"

text \<open>The settings with which \<open>App\<close> starts.\<close>

definition initial_elements :: elements_t where
  "initial_elements k =
     (case k of
        K_model \<Rightarrow> \<lparr>elem_id = ''model'', label = ''model'', text = '''', side = Left, line = L1, order = 0\<rparr>
      | K_lens \<Rightarrow> \<lparr>elem_id = ''lens'', label = ''lens'', text = '''', side = Left, line = L1, order = 1\<rparr>
      | K_focalLength \<Rightarrow> \<lparr>elem_id = ''focalLength'', label = ''focalLength'', text = '''', side = Right, line = L1, order = 0\<rparr>
      | K_fNumber \<Rightarrow> \<lparr>elem_id = ''fNumber'', label = ''fNumber'', text = '''', side = Right, line = L1, order = 1\<rparr>
      | K_iso \<Rightarrow> \<lparr>elem_id = ''iso'', label = ''iso'', text = '''', side = Right, line = L1, order = 2\<rparr>
      | K_exposureTime \<Rightarrow> \<lparr>elem_id = ''exposureTime'', label = ''exposureTime'', text = '''', side = Right, line = L1, order = 3\<rparr>
      | K_date \<Rightarrow> \<lparr>elem_id = ''date'', label = ''date'', text = '''', side = Right, line = L2, order = 0\<rparr>
      | K_gps \<Rightarrow> \<lparr>elem_id = ''gps'', label = ''gps'', text = '''', side = Off, line = L2, order = 1\<rparr>)"

definition initial_settings :: WatermarkSettings where
  "initial_settings =
     \<lparr> elements = initial_elements, bannerStyle = WHITE, blurIntensity = 30,
       useOriginalDate = True, selectedLogoKey = ''AUTO'', customLogoSvg = None,
       logoPosition = LogoLeft, useAdaptiveTextColor = False \<rparr>"

section \<open>utils/canvas.ts\<close>

definition BANNER_HEIGHT_PERCENTAGE :: real where
  "BANNER_HEIGHT_PERCENTAGE = 0.12"

definition PADDING_PERCENTAGE :: real where
  "PADDING_PERCENTAGE = 0.35"

definition SEPARATOR_CHAR :: string where
  "SEPARATOR_CHAR = ''|''"

subsection \<open>Images and the canvas\<close>

text \<open>
  A decoded image: its natural size and, for the colour algorithm, what
  \<open>getImageData\<close> returns after the band \<open>(y, h)\<close> of the image has been drawn into the
  100 x 10 sample canvas: the RGBA bytes, or \<open>None\<close> when that canvas has no 2d context.
\<close>

record image =
  naturalWidth :: nat
  naturalHeight :: nat
  band :: "real \<Rightarrow> real \<Rightarrow> nat list option"

text \<open>
  \<open>ctx.font\<close> is either the canvas default (\<open>10px sans-serif\<close>) or one of the fonts
  the code sets, \<open>[bold ]<size>px Inter, sans-serif\<close>. \<open>ctx.measureText(s).width\<close>
  depends on the font and the string and is a parameter of the model.
\<close>

datatype css_font = DefaultFont | Font bool real

type_synonym measure_t = "css_font \<Rightarrow> string \<Rightarrow> real"

datatype filter_t = FilterNone | FilterBlur real | FilterInvert

datatype align_t = AlignLeft | AlignCenter

datatype image_ref = SourceImage | LogoImage

text \<open>The calls on the canvas and its context, in the order in which they are made.\<close>

datatype canvas_op =
    Resize real real
  | DrawImage image_ref real real
  | DrawImageScaled image_ref real real real real
  | DrawImageSub image_ref real real real real real real real real
  | SetShadowBlur real
  | SetShadowColor string
  | SetShadowOffsetX real
  | SetShadowOffsetY real
  | SetFillStyle string
  | SetFilter filter_t
  | SetFont css_font
  | SetTextAlign align_t
  | SetTextBaseline string
  | FillRect real real real real
  | FillText string real real
  | BeginPath
  | MoveTo real real
  | ArcTo real real real real real
  | ClosePath
  | Fill

subsection \<open>getDominantColors\<close>

text \<open>
  \<open>colorMap\<close>, in insertion order. The key string \<open>"qr,qg,qb"\<close> is the triple of the
  quantised channels; an entry is \<open>(count, r, g, b)\<close> with the channel sums.
\<close>

type_synonym colorMap_t = "((nat \<times> nat \<times> nat) \<times> (nat \<times> nat \<times> nat \<times> nat)) list"

definition quantizationFactor :: nat where
  "quantizationFactor = 32"

fun bump_entry ::
  "(nat \<times> nat \<times> nat) \<Rightarrow> nat \<Rightarrow> nat \<Rightarrow> nat \<Rightarrow> colorMap_t \<Rightarrow> colorMap_t" where
  "bump_entry key r g b [] = [(key, (1, r, g, b))]"
| "bump_entry key r g b ((k, (c, sr, sg, sb)) # m) =
     (if k = key then (k, (c + 1, sr + r, sg + g, sb + b)) # m
      else (k, (c, sr, sg, sb)) # bump_entry key r g b m)"

text \<open>
  The loop over \<open>data\<close>, four bytes a pixel (the length of the data of an \<open>ImageData\<close>
  is a multiple of four).
\<close>

fun accumulate :: "nat list \<Rightarrow> colorMap_t \<Rightarrow> colorMap_t" where
  "accumulate (r # g # b # a # rest) m =
     accumulate rest
       (bump_entry (r div quantizationFactor, g div quantizationFactor, b div quantizationFactor)
          r g b m)"
| "accumulate _ m = m"

record bucket =
  b_count :: nat
  b_r :: nat
  b_g :: nat
  b_b :: nat
  b_hex :: string

text \<open>\<open>Math.round(a / c)\<close> for non-negative integers: halves round up.\<close>

definition round_div :: "nat \<Rightarrow> nat \<Rightarrow> nat" where
  "round_div a c = nat \<lfloor>real a / real c + 1 / 2\<rfloor>"

definition rgb_string :: "nat \<Rightarrow> nat \<Rightarrow> nat \<Rightarrow> string" where
  "rgb_string r g b = ''rgb('' @ showNat r @ '', '' @ showNat g @ '', '' @ showNat b @ '')''"

definition mk_bucket :: "nat \<times> nat \<times> nat \<times> nat \<Rightarrow> bucket" where
  "mk_bucket e =
     (case e of (c, sr, sg, sb) \<Rightarrow>
        \<lparr> b_count = c, b_r = round_div sr c, b_g = round_div sg c, b_b = round_div sb c,
          b_hex = rgb_string (round_div sr c) (round_div sg c) (round_div sb c) \<rparr>)"

text \<open>
  \<open>buckets.sort((a, b) => b.count - a.count)\<close>: descending by count, stable.
\<close>

definition buckets_of :: "nat list \<Rightarrow> bucket list" where
  "buckets_of data =
     sort_key (\<lambda>b. - int (b_count b)) (map (\<lambda>(k, e). mk_bucket e) (accumulate data []))"

text \<open>The distance \<open>dist\<close> of the scan (\<open>dist\<close> itself is HOL's metric).\<close>

definition dist_rgb :: "bucket \<Rightarrow> bucket \<Rightarrow> real" where
  "dist_rgb b d =
     sqrt ((real (b_r b) - real (b_r d))\<^sup>2 + (real (b_g b) - real (b_g d))\<^sup>2 +
           (real (b_b b) - real (b_b d))\<^sup>2)"

text \<open>The scan \<open>for (let i = 1; ...)\<close> with its \<open>break\<close>.\<close>

fun findSecondary :: "bucket \<Rightarrow> bucket list \<Rightarrow> bucket option" where
  "findSecondary dominant [] = None"
| "findSecondary dominant (b # bs) =
     (if dist_rgb b dominant > 60 then Some b else findSecondary dominant bs)"

definition brightness_of :: "bucket \<Rightarrow> real" where
  "brightness_of d = (real (b_r d) * 299 + real (b_g d) * 587 + real (b_b d) * 114) / 1000"

record colors =
  dominant :: string
  secondary :: string

text \<open>
  After the scan \<open>secondary === dominant\<close> holds exactly when no bucket was picked.
\<close>

definition getDominantColors :: "image \<Rightarrow> real \<Rightarrow> real \<Rightarrow> colors" where
  "getDominantColors img y h =
     (case band img y h of
        None \<Rightarrow> \<lparr>dominant = ''#ffffff'', secondary = ''#000000''\<rparr>
      | Some data \<Rightarrow>
          (case buckets_of data of
             [] \<Rightarrow> \<lparr>dominant = ''#ffffff'', secondary = ''#000000''\<rparr>
           | d # rest \<Rightarrow>
               (case findSecondary d rest of
                  Some b \<Rightarrow> \<lparr>dominant = b_hex d, secondary = b_hex b\<rparr>
                | None \<Rightarrow>
                    (let brightness = brightness_of d
                     in \<lparr>dominant = b_hex d,
                         secondary = (if brightness > 128 then ''#000000'' else ''#ffffff'')\<rparr>))))"

subsection \<open>getBrightness\<close>

text \<open>\<open>s.match(/\d+/g)\<close>: the maximal runs of digits (\<open>[]\<close> for \<open>null\<close>).\<close>

function digit_runs :: "string \<Rightarrow> string list" where
  "digit_runs [] = []"
| "digit_runs (c # cs) =
     (if isDigit c then takeWhile isDigit (c # cs) # digit_runs (dropWhile isDigit cs)
      else digit_runs cs)"
  by pat_completeness auto
termination
  by (relation "measure length") (auto simp: length_dropWhile_le less_Suc_eq_le)

definition digit_val :: "char \<Rightarrow> nat" where
  "digit_val c = of_char c - 48"

text \<open>\<open>parseInt(s, 10)\<close> on a run of digits.\<close>

definition parseInt10 :: "string \<Rightarrow> nat" where
  "parseInt10 s = foldl (\<lambda>n c. 10 * n + digit_val c) 0 s"

text \<open>
  \<open>getBrightness\<close>; \<open>None\<close> is \<open>NaN\<close>, which is what the arithmetic gives when fewer
  than three numbers are found (\<open>parseInt(undefined)\<close>).
\<close>

definition getBrightness :: "string \<Rightarrow> real option" where
  "getBrightness rgbStr =
     (case digit_runs rgbStr of
        [] \<Rightarrow> Some 255
      | r # g # b # _ \<Rightarrow>
          Some ((real (parseInt10 r) * 299 + real (parseInt10 g) * 587 +
                 real (parseInt10 b) * 114) / 1000)
      | _ \<Rightarrow> None)"

text \<open>\<open>x >= t\<close>, false for \<open>NaN\<close>.\<close>

definition at_least :: "real option \<Rightarrow> real \<Rightarrow> bool" where
  "at_least x t = (case x of None \<Rightarrow> False | Some v \<Rightarrow> v \<ge> t)"

subsection \<open>roundRect\<close>

definition roundRect :: "real \<Rightarrow> real \<Rightarrow> real \<Rightarrow> real \<Rightarrow> real \<Rightarrow> canvas_op list" where
  "roundRect x y w h r0 =
     (let r1 = (if w < 2 * r0 then w / 2 else r0);
          r = (if h < 2 * r1 then h / 2 else r1)
      in [BeginPath, MoveTo (x + r) y,
          ArcTo (x + w) y (x + w) (y + h) r,
          ArcTo (x + w) (y + h) x (y + h) r,
          ArcTo x (y + h) x y r,
          ArcTo x y (x + w) y r,
          ClosePath])"
subsection \<open>generateWatermark: the pre-calculation phase\<close>

text \<open>
  The sizing variables of \<open>img.onload\<close> and \<open>processRender\<close>.
\<close>

record layout =
  bannerH :: real
  mainFontSize :: real
  subFontSize :: real
  padding :: real
  logoH :: real
  logoW :: real
  logoRealH :: real

text \<open>
  The values computed in \<open>img.onload\<close> from the size of the source image, and the
  first two lines of \<open>processRender\<close> (\<open>logoW = logoH\<close>, \<open>logoRealH = logoH\<close>).
\<close>

definition initLayout :: "nat \<Rightarrow> nat \<Rightarrow> layout" where
  "initLayout w h =
     (let refSize = real (min w h);
          bH = refSize * BANNER_HEIGHT_PERCENTAGE
      in \<lparr> bannerH = bH,
           mainFontSize = of_int \<lfloor>bH * 0.24\<rfloor>,
           subFontSize = of_int \<lfloor>bH * 0.20\<rfloor>,
           padding = bH * PADDING_PERCENTAGE,
           logoH = bH * 0.38,
           logoW = bH * 0.38,
           logoRealH = bH * 0.38 \<rparr>)"

text \<open>
  "Determine Logo Width": from \<open>logoH\<close> and \<open>bannerH\<close> and the natural size of the logo
  image \<open>lImg\<close>.
\<close>

definition determineLogoWidth :: "bool \<Rightarrow> image \<Rightarrow> layout \<Rightarrow> layout" where
  "determineLogoWidth logoFailed lImg lay =
     (let lay0 = lay\<lparr>logoW := logoH lay, logoRealH := logoH lay\<rparr>
      in if \<not> logoFailed \<and> naturalWidth lImg \<noteq> 0 \<and> naturalHeight lImg \<noteq> 0 then
           (let aspect = real (naturalWidth lImg) / real (naturalHeight lImg);
                lw = logoH lay * aspect;
                maxLogoW = bannerH lay * 2.5
            in if lw > maxLogoW then
                 (let scale = maxLogoW / lw
                  in lay0\<lparr>logoW := maxLogoW, logoRealH := logoH lay * scale\<rparr>)
               else lay0\<lparr>logoW := lw\<rparr>)
         else lay0)"

text \<open>"Measure Text Blocks": the slots of one (side, line) group, by \<open>order\<close>.\<close>

definition lineItems :: "WatermarkSettings \<Rightarrow> Side \<Rightarrow> Line \<Rightarrow> WatermarkElement list" where
  "lineItems settings s l =
     sort_key order (filter (\<lambda>e. side e = s \<and> line e = l) (values_of (elements settings)))"

text \<open>
  The \<open>forEach\<close> of \<open>measureLine\<close> over the non-empty texts: each adds its width, and
  the gap unless it is the last.
\<close>

fun sumWidths :: "(string \<Rightarrow> real) \<Rightarrow> real \<Rightarrow> string list \<Rightarrow> real \<Rightarrow> real" where
  "sumWidths m gap [] width = width"
| "sumWidths m gap (t # ts) width =
     sumWidths m gap ts (if ts \<noteq> [] then width + m t + gap else width + m t)"

text \<open>
  \<open>measureLine\<close>, with the font of the context before and after: an empty group
  returns before the font is set.
\<close>

definition measureLine ::
  "measure_t \<Rightarrow> WatermarkElement list \<Rightarrow> real \<Rightarrow> bool \<Rightarrow> css_font \<Rightarrow> real \<times> css_font" where
  "measureLine mt items fontSize isBold font0 =
     (if length items = 0 then (0, font0)
      else
        let font1 = Font isBold fontSize;
            gap = mt font1 SEPARATOR_CHAR * 2.5
        in (sumWidths (mt font1) gap (map text (filter (\<lambda>i. text i \<noteq> []) items)) 0, font1))"

text \<open>
  The widths of the left and of the right block, with the logo space. The canvas was
  resized just before, so the font starts as the default.
\<close>

definition blockWidths :: "measure_t \<Rightarrow> WatermarkSettings \<Rightarrow> layout \<Rightarrow> real \<times> real" where
  "blockWidths mt settings lay =
     (let (wL1, f1) = measureLine mt (lineItems settings Left L1) (mainFontSize lay) True DefaultFont;
          (wL2, f2) = measureLine mt (lineItems settings Left L2) (subFontSize lay) False f1;
          (wR1, f3) = measureLine mt (lineItems settings Right L1) (mainFontSize lay) True f2;
          (wR2, f4) = measureLine mt (lineItems settings Right L2) (subFontSize lay) False f3;
          totalLeftW = max wL1 wL2;
          totalRightW = max wR1 wR2;
          logoSpace = logoW lay + bannerH lay * 0.2
      in case logoPosition settings of
           LogoLeft \<Rightarrow>
             ((if max wL1 wL2 > 0
               then totalLeftW + logoSpace + mt f4 SEPARATOR_CHAR * 2.5
               else totalLeftW + logoSpace),
              totalRightW)
         | LogoRight \<Rightarrow>
             (totalLeftW,
              (if max wR1 wR2 > 0
               then totalRightW + logoSpace + mt f4 SEPARATOR_CHAR * 2.5
               else totalRightW + logoSpace)))"

definition totalContentWidth :: "measure_t \<Rightarrow> WatermarkSettings \<Rightarrow> layout \<Rightarrow> real" where
  "totalContentWidth mt settings lay =
     (let (totalLeftW, totalRightW) = blockWidths mt settings lay
      in totalLeftW + totalRightW + padding lay * 2 + bannerH lay * 0.5)"

text \<open>"Check for Overlap": the scale and its application.\<close>

definition resolveFit ::
  "measure_t \<Rightarrow> WatermarkSettings \<Rightarrow> bool \<Rightarrow> image \<Rightarrow> nat \<Rightarrow> layout \<Rightarrow> layout" where
  "resolveFit mt settings logoFailed lImg w lay =
     (let total = totalContentWidth mt settings lay
      in if total > real w then
           (let scale = real w / total;
                safeScale = max 0.6 scale
            in lay\<lparr> bannerH := bannerH lay * safeScale,
                    mainFontSize := mainFontSize lay * safeScale,
                    subFontSize := subFontSize lay * safeScale,
                    padding := padding lay * safeScale,
                    logoH := logoH lay * safeScale,
                    logoW := (if \<not> logoFailed \<and> naturalWidth lImg \<noteq> 0
                              then logoW lay * safeScale else logoW lay * safeScale),
                    logoRealH := (if \<not> logoFailed \<and> naturalWidth lImg \<noteq> 0
                                  then logoRealH lay * safeScale
                                  else logoRealH lay * safeScale) \<rparr>)
         else lay)"

text \<open>
  One measurement-and-fit pass on given sizing values: the part of \<open>processRender\<close>
  before the drawing phase.
\<close>

definition fitPass ::
  "measure_t \<Rightarrow> WatermarkSettings \<Rightarrow> bool \<Rightarrow> image \<Rightarrow> nat \<Rightarrow> layout \<Rightarrow> layout" where
  "fitPass mt settings logoFailed lImg w lay =
     resolveFit mt settings logoFailed lImg w (determineLogoWidth logoFailed lImg lay)"

subsection \<open>generateWatermark: the drawing phase\<close>

text \<open>The colours and the shadow policy chosen for the banner style.\<close>

record style =
  bgColor :: string
  textColor :: string
  secondaryTextColor :: string
  useShadow :: bool
  style_ops :: "canvas_op list"

definition styleBanner :: "image \<Rightarrow> WatermarkSettings \<Rightarrow> layout \<Rightarrow> style" where
  "styleBanner img settings lay =
     (let w = real (naturalWidth img); h = real (naturalHeight img); bH = bannerH lay
      in case bannerStyle settings of
           ADAPTIVE \<Rightarrow>
             (let cs = getDominantColors img (h - h * 0.15) (h * 0.15);
                  bg = dominant cs
              in if useAdaptiveTextColor settings then
                   \<lparr> bgColor = bg, textColor = secondary cs, secondaryTextColor = secondary cs,
                     useShadow = True, style_ops = [SetFillStyle bg] \<rparr>
                 else if at_least (getBrightness bg) 128 then
                   \<lparr> bgColor = bg, textColor = ''#000000'', secondaryTextColor = ''#333333'',
                     useShadow = True, style_ops = [SetFillStyle bg] \<rparr>
                 else
                   \<lparr> bgColor = bg, textColor = ''#ffffff'', secondaryTextColor = ''#dddddd'',
                     useShadow = True, style_ops = [SetFillStyle bg] \<rparr>)
         | BLACK \<Rightarrow>
             \<lparr> bgColor = ''#000000'', textColor = ''#ffffff'', secondaryTextColor = ''#aaaaaa'',
               useShadow = False, style_ops = [SetFillStyle ''#000000''] \<rparr>
         | WHITE \<Rightarrow>
             \<lparr> bgColor = ''#ffffff'', textColor = ''#000000'', secondaryTextColor = ''#666666'',
               useShadow = False, style_ops = [SetFillStyle ''#ffffff''] \<rparr>
         | BLUR \<Rightarrow>
             (let extension = blurIntensity settings * 2;
                  sy = max 0 (h - bH);
                  sh = min bH (real (naturalHeight img) - sy);
                  blur_ops =
                    [SetFilter (FilterBlur (blurIntensity settings)),
                     DrawImageSub SourceImage 0 sy w sh
                       (- extension) (h - extension) (w + extension * 2) (bH + extension * 2),
                     SetFilter FilterNone];
                  cs = getDominantColors img (h - bH) bH
              in if at_least (getBrightness (dominant cs)) 160 then
                   \<lparr> bgColor = ''#ffffff'', textColor = ''#000000'', secondaryTextColor = ''#222222'',
                     useShadow = True, style_ops = blur_ops \<rparr>
                 else
                   \<lparr> bgColor = ''#ffffff'', textColor = ''#ffffff'', secondaryTextColor = ''#eeeeee'',
                     useShadow = True, style_ops = blur_ops \<rparr>))"

definition enableShadow :: "style \<Rightarrow> layout \<Rightarrow> canvas_op list" where
  "enableShadow st lay =
     (if useShadow st then
        [SetShadowColor
           (if textColor st = ''#ffffff'' then ''rgba(0, 0, 0, 0.3)''
            else ''rgba(255, 255, 255, 0.3)''),
         SetShadowBlur (mainFontSize lay * 0.8), SetShadowOffsetX 0, SetShadowOffsetY 0]
      else [SetShadowColor ''transparent''])"

datatype dir_t = Ltr | Rtl

record seq_item =
  content :: string
  item_font :: css_font
  color :: string

text \<open>The loop of \<open>drawSeqY\<close> from the item at the cursor on.\<close>

fun drawItems ::
  "measure_t \<Rightarrow> dir_t \<Rightarrow> real \<Rightarrow> real \<Rightarrow> css_font \<Rightarrow> string \<Rightarrow> real \<Rightarrow> seq_item list
     \<Rightarrow> canvas_op list" where
  "drawItems mt dir y gap pipeFont sec cursor [] = []"
| "drawItems mt dir y gap pipeFont sec cursor (item # rest) =
     (let itemW = mt (item_font item) (content item);
          drawX = (if dir = Ltr then cursor else cursor - itemW);
          item_ops = [SetFont (item_font item), SetTextAlign AlignLeft,
                      SetFillStyle (color item), FillText (content item) drawX y]
      in if rest \<noteq> [] then
           (if dir = Ltr then
              item_ops @
              [SetTextAlign AlignCenter, SetFillStyle sec, SetFont pipeFont,
               FillText SEPARATOR_CHAR (cursor + itemW + gap / 2) y] @
              drawItems mt dir y gap pipeFont sec (cursor + itemW + gap) rest
            else
              item_ops @
              [SetTextAlign AlignCenter, SetFillStyle sec, SetFont pipeFont,
               FillText SEPARATOR_CHAR (cursor - itemW - gap / 2) y] @
              drawItems mt dir y gap pipeFont sec (cursor - itemW - gap) rest)
         else item_ops)"

text \<open>
  \<open>drawSeqY\<close>: the gap is measured in the font the context has on entry; the result
  is the calls made and the font of the context afterwards.
\<close>

definition drawSeqY ::
  "measure_t \<Rightarrow> style \<Rightarrow> layout \<Rightarrow> real \<Rightarrow> real \<Rightarrow> dir_t \<Rightarrow> seq_item list \<Rightarrow> bool \<Rightarrow> css_font
     \<Rightarrow> canvas_op list \<times> css_font" where
  "drawSeqY mt st lay x y dir items isBoldLine font0 =
     (let gap = mt font0 SEPARATOR_CHAR * 2.5;
          pipeFont = (if isBoldLine then Font True (mainFontSize lay)
                      else Font False (subFontSize lay))
      in (drawItems mt dir y gap pipeFont (secondaryTextColor st) x items,
          (if items = [] then font0 else item_font (last items))))"

text \<open>\<open>isFallback\<close> is never assigned after its declaration.\<close>

definition isFallback :: bool where
  "isFallback = False"

definition drawLogoSequence ::
  "bool \<Rightarrow> style \<Rightarrow> layout \<Rightarrow> real \<Rightarrow> real \<Rightarrow> dir_t \<Rightarrow> canvas_op list" where
  "drawLogoSequence logoFailed st lay centerY x dir =
     (let drawX = (if dir = Ltr then x else x - logoW lay)
      in if logoFailed then
           [SetFillStyle (textColor st)] @
           roundRect drawX (centerY - logoRealH lay / 2) (logoW lay) (logoRealH lay)
             (min (logoW lay) (logoRealH lay) * 0.2) @
           [Fill]
         else
           (if textColor st = ''#ffffff'' \<and> \<not> isFallback then [SetFilter FilterInvert] else []) @
           [DrawImageScaled LogoImage drawX (centerY - logoRealH lay / 2) (logoW lay)
              (logoRealH lay),
            SetFilter FilterNone])"

text \<open>The items of a line as \<open>drawSeqY\<close> gets them.\<close>

definition seqOf :: "WatermarkElement list \<Rightarrow> css_font \<Rightarrow> string \<Rightarrow> seq_item list" where
  "seqOf items f c =
     filter (\<lambda>e. content e \<noteq> [])
       (map (\<lambda>e. \<lparr>content = text e, item_font = f, color = c\<rparr>) items)"

definition hasText :: "WatermarkElement list \<Rightarrow> bool" where
  "hasText items = list_ex (\<lambda>e. text e \<noteq> []) items"

text \<open>The vertical positions of the two lines.\<close>

definition lineY1 :: "real \<Rightarrow> layout \<Rightarrow> real" where
  "lineY1 centerY lay =
     (let gapY = bannerH lay * 0.08;
          totalTextH = mainFontSize lay + gapY + subFontSize lay;
          startY = centerY - totalTextH / 2
      in startY + mainFontSize lay / 2)"

definition lineY2 :: "real \<Rightarrow> layout \<Rightarrow> real" where
  "lineY2 centerY lay =
     (let gapY = bannerH lay * 0.08;
          totalTextH = mainFontSize lay + gapY + subFontSize lay;
          startY = centerY - totalTextH / 2
      in startY + mainFontSize lay + gapY + subFontSize lay / 2)"

text \<open>
  Drawing the two lines of one side from the cursor \<open>x\<close>: line 1 if it has text,
  then line 2 if it has text.
\<close>

definition drawLines ::
  "measure_t \<Rightarrow> style \<Rightarrow> layout \<Rightarrow> real \<Rightarrow> WatermarkElement list \<Rightarrow> WatermarkElement list
     \<Rightarrow> real \<Rightarrow> dir_t \<Rightarrow> css_font \<Rightarrow> canvas_op list \<times> css_font" where
  "drawLines mt st lay centerY l1 l2 x dir font0 =
     (let has1 = hasText l1; has2 = hasText l2;
          (ops1, f1) =
            (if has1 then
               drawSeqY mt st lay x (if has2 then lineY1 centerY lay else centerY) dir
                 (seqOf l1 (Font True (mainFontSize lay)) (textColor st)) True font0
             else ([], font0));
          (ops2, f2) =
            (if has2 then
               drawSeqY mt st lay x (if has1 then lineY2 centerY lay else centerY) dir
                 (seqOf l2 (Font False (subFontSize lay)) (secondaryTextColor st)) False f1
             else ([], f1))
      in (ops1 @ ops2, f2))"

text \<open>"DRAW LEFT"\<close>

definition drawLeft ::
  "measure_t \<Rightarrow> WatermarkSettings \<Rightarrow> bool \<Rightarrow> style \<Rightarrow> layout \<Rightarrow> real \<Rightarrow> css_font
     \<Rightarrow> canvas_op list \<times> css_font" where
  "drawLeft mt settings logoFailed st lay centerY font0 =
     (let leftL1 = lineItems settings Left L1;
          leftL2 = lineItems settings Left L2;
          bold = Font True (mainFontSize lay);
          (logo_ops, leftCursor, f1) =
            (case logoPosition settings of
               LogoLeft \<Rightarrow>
                 (let c1 = padding lay + logoW lay + bannerH lay * 0.2
                  in if hasText leftL1 \<or> hasText leftL2 then
                       (drawLogoSequence logoFailed st lay centerY (padding lay) Ltr @
                        [SetFillStyle (secondaryTextColor st), SetFont bold,
                         SetTextAlign AlignCenter, FillText SEPARATOR_CHAR c1 centerY],
                        c1 + mt bold SEPARATOR_CHAR * 2.5, bold)
                     else
                       (drawLogoSequence logoFailed st lay centerY (padding lay) Ltr, c1, font0))
             | LogoRight \<Rightarrow> ([], padding lay, font0));
          (line_ops, f2) = drawLines mt st lay centerY leftL1 leftL2 leftCursor Ltr f1
      in (logo_ops @ line_ops, f2))"

text \<open>
  The width of a right-hand line as the "DRAW RIGHT" block measures it, with the
  assignments to \<open>ctx.font\<close> it makes.
\<close>

definition measureSeq ::
  "measure_t \<Rightarrow> real \<Rightarrow> WatermarkElement list \<Rightarrow> css_font \<Rightarrow> real \<times> canvas_op list" where
  "measureSeq mt gap items f =
     (let seq = filter (\<lambda>t. t \<noteq> []) (map text items)
      in (sumWidths (mt f) gap seq 0, map (\<lambda>t. SetFont f) seq))"

text \<open>"DRAW RIGHT"\<close>

definition drawRight ::
  "measure_t \<Rightarrow> WatermarkSettings \<Rightarrow> bool \<Rightarrow> style \<Rightarrow> layout \<Rightarrow> real \<Rightarrow> real \<Rightarrow> css_font
     \<Rightarrow> canvas_op list" where
  "drawRight mt settings logoFailed st lay w centerY font0 =
     (let rightL1 = lineItems settings Right L1;
          rightL2 = lineItems settings Right L2;
          bold = Font True (mainFontSize lay);
          regular = Font False (subFontSize lay);
          rightCursor = w - padding lay
      in case logoPosition settings of
           LogoRight \<Rightarrow>
             (let gap = mt font0 SEPARATOR_CHAR * 2.5;
                  (w1, m1) = (if hasText rightL1 then measureSeq mt gap rightL1 bold
                              else (0, []));
                  maxTextW1 = (if w1 > 0 then w1 else 0);
                  (w2, m2) = (if hasText rightL2 then measureSeq mt gap rightL2 regular
                              else (0, []));
                  maxTextW = (if w2 > maxTextW1 then w2 else maxTextW1);
                  f1 = (if hasText rightL2 then regular
                        else if hasText rightL1 then bold else font0);
                  (line_ops, f2) =
                    drawLines mt st lay centerY rightL1 rightL2 rightCursor Rtl f1
              in if hasText rightL1 \<or> hasText rightL2 then
                   (let c1 = rightCursor - maxTextW
                    in m1 @ m2 @ line_ops @
                       [SetFillStyle (secondaryTextColor st), SetFont bold,
                        SetTextAlign AlignCenter,
                        FillText SEPARATOR_CHAR (c1 - (mt bold SEPARATOR_CHAR * 2.5) / 2) centerY] @
                       drawLogoSequence logoFailed st lay centerY
                         (c1 - mt bold SEPARATOR_CHAR * 2.5) Rtl)
                 else
                   m1 @ m2 @ line_ops @
                   drawLogoSequence logoFailed st lay centerY rightCursor Rtl)
         | LogoLeft \<Rightarrow> fst (drawLines mt st lay centerY rightL1 rightL2 rightCursor Rtl font0))"

subsection \<open>processRender and generateWatermark\<close>

text \<open>
  What \<open>processRender\<close> leaves behind: the size given to the canvas, the final sizing
  values, and the calls that produced the picture encoded by
  \<open>canvas.toDataURL('image/jpeg', 0.95)\<close>. The first call resizes the canvas, which
  clears it and resets the context, so the calls of the pre-calculation phase (font
  assignments only) leave no trace and are not listed.
\<close>

record render =
  canvasWidth :: real
  canvasHeight :: real
  final :: layout
  calls :: "canvas_op list"

definition processRender ::
  "measure_t \<Rightarrow> image \<Rightarrow> image \<Rightarrow> WatermarkSettings \<Rightarrow> bool \<Rightarrow> render" where
  "processRender mt img lImg settings logoFailed =
     (let w = real (naturalWidth img);
          h = real (naturalHeight img);
          lay = fitPass mt settings logoFailed lImg (naturalWidth img)
                  (initLayout (naturalWidth img) (naturalHeight img));
          totalH = h + bannerH lay;
          bannerY = h;
          st = styleBanner img settings lay;
          centerY = bannerY + bannerH lay / 2;
          (left_ops, f1) = drawLeft mt settings logoFailed st lay centerY DefaultFont;
          right_ops = drawRight mt settings logoFailed st lay w centerY f1
      in \<lparr> canvasWidth = w,
           canvasHeight = totalH,
           final = lay,
           calls =
             [Resize w totalH, DrawImage SourceImage 0 0,
              SetShadowBlur 0, SetShadowColor ''transparent''] @
             style_ops st @
             (if bannerStyle settings \<noteq> BLUR then [FillRect 0 bannerY w (bannerH lay)] else []) @
             [SetTextBaseline ''middle''] @
             enableShadow st lay @
             left_ops @ right_ops \<rparr>)"



subsection \<open>Scaling all sizing values by one factor\<close>



subsection \<open>Calls that draw the logo image\<close>


section \<open>Concrete inputs\<close>

definition example_clock :: clock where
  "example_clock = \<lparr>getFullYear = 2026, getMonth = 0, getDate = 5, getHours = 9, getMinutes = 3\<rparr>"

definition mk_tag :: "string \<Rightarrow> tag" where
  "mk_tag d = \<lparr>description = d, val = NotArray\<rparr>"

definition example_tags :: tags where
  "example_tags =
     [''Make'' \<mapsto> mk_tag ''NIKON CORPORATION'',
      ''Model'' \<mapsto> mk_tag ''NIKON Z 6'',
      ''FocalLength'' \<mapsto> mk_tag ''24 mm'',
      ''FNumber'' \<mapsto> mk_tag ''1.8'',
      ''ISOSpeedRatings'' \<mapsto> mk_tag ''400'',
      ''ExposureTime'' \<mapsto> mk_tag ''1/125'',
      ''DateTimeOriginal'' \<mapsto> mk_tag ''2024:05:01 10:30:00'',
      ''GPSLatitude'' \<mapsto> \<lparr>description = ''40.7484'', val = NumArray [40, 44, 54.36]\<rparr>,
      ''GPSLatitudeRef'' \<mapsto> mk_tag ''North latitude'',
      ''GPSLongitude'' \<mapsto> \<lparr>description = ''73.9857'', val = NumArray [73, 59, 8.36]\<rparr>,
      ''GPSLongitudeRef'' \<mapsto> mk_tag ''West longitude'']"


definition example_tags_normalized :: tags where
  "example_tags_normalized =
     [''FNumber'' \<mapsto> mk_tag ''f/1.8'', ''ExposureTime'' \<mapsto> mk_tag ''1/125s'']"

text \<open>
  Sample bands of 1000 pixels: a uniform mid-grey one (every pixel 128, 128, 128), and
  one with 600 pixels of (200, 200, 200) and 400 of (230, 230, 230).
\<close>

definition grey_image :: image where
  "grey_image =
     \<lparr> naturalWidth = 4000, naturalHeight = 3000,
       band = (\<lambda>y h. Some (concat (replicate 1000 [128, 128, 128, 255]))) \<rparr>"

definition two_tone_image :: image where
  "two_tone_image =
     \<lparr> naturalWidth = 4000, naturalHeight = 3000,
       band = (\<lambda>y h. Some (concat (replicate 600 [200, 200, 200, 255]) @
                          concat (replicate 400 [230, 230, 230, 255]))) \<rparr>"

text \<open>
  A text measure that is linear in the font size, a logo image, and settings: the
  initial ones with the eight texts that \<open>onDrop\<close> derives from \<open>example_tags\<close>, and
  the same with a long text in the model slot.
\<close>

definition example_measure :: measure_t where
  "example_measure f s =
     (case f of
        DefaultFont \<Rightarrow> 5 * real (length s)
      | Font b z \<Rightarrow> (if b then 0.6 else 0.5) * z * real (length s))"

definition example_logo :: image where
  "example_logo = \<lparr>naturalWidth = 300, naturalHeight = 100, band = (\<lambda>y h. None)\<rparr>"

definition typical_elements :: elements_t where
  "typical_elements k =
     (case k of
        K_model \<Rightarrow> (initial_elements k)\<lparr>text := ''NIKON Z 6''\<rparr>
      | K_lens \<Rightarrow> (initial_elements k)\<lparr>text := []\<rparr>
      | K_focalLength \<Rightarrow> (initial_elements k)\<lparr>text := ''24mm''\<rparr>
      | K_fNumber \<Rightarrow> (initial_elements k)\<lparr>text := ''f/1.8''\<rparr>
      | K_iso \<Rightarrow> (initial_elements k)\<lparr>text := ''ISO400''\<rparr>
      | K_exposureTime \<Rightarrow> (initial_elements k)\<lparr>text := ''1/125s''\<rparr>
      | K_date \<Rightarrow> (initial_elements k)\<lparr>text := ''2024.05.01 10:30:00''\<rparr>
      | K_gps \<Rightarrow> (initial_elements k)\<lparr>text := ''40.7484, -73.9857''\<rparr>)"

definition typical_settings :: WatermarkSettings where
  "typical_settings = initial_settings\<lparr>elements := typical_elements\<rparr>"

definition long_settings :: "nat \<Rightarrow> WatermarkSettings" where
  "long_settings n =
     typical_settings\<lparr>elements :=
       set_text K_model (replicate n (CHR ''M'')) (elements typical_settings)\<rparr>"

section \<open>Properties of the slot layout\<close>

lemma keys_distinct: "distinct keys"
  by (simp add: keys_def)

lemma keys_UNIV: "set keys = UNIV"
proof -
  have "k \<in> set keys" for k
    by (cases k) (simp_all add: keys_def)
  then show ?thesis by auto
qed

lemma Side_all: "(\<forall>s \<in> set [Left, Right, Off]. P s) = (\<forall>s. P s)"
proof
  assume h: "\<forall>s \<in> set [Left, Right, Off]. P s"
  show "\<forall>s. P s"
  proof
    fix s show "P s" using h by (cases s) simp_all
  qed
qed simp

lemma Line_all: "(\<forall>l \<in> set [L1, L2]. P l) = (\<forall>l. P l)"
proof
  assume h: "\<forall>l \<in> set [L1, L2]. P l"
  show "\<forall>l. P l"
  proof
    fix l show "P l" using h by (cases l) simp_all
  qed
qed simp

lemma group_distinct_iff:
  "distinct (map (\<lambda>k. order (els k)) (group_of els s l)) \<longleftrightarrow>
     inj_on (\<lambda>k. order (els k)) {k. side (els k) = s \<and> line (els k) = l}"
  by (simp add: group_of_def distinct_map keys_distinct keys_UNIV)

lemma orders_distinct_iff:
  "orders_distinct els \<longleftrightarrow>
     (\<forall>k1 k2. k1 \<noteq> k2 \<and> side (els k1) = side (els k2) \<and> line (els k1) = line (els k2)
        \<longrightarrow> order (els k1) \<noteq> order (els k2))"
  (is "?L \<longleftrightarrow> ?R")
proof
  assume l: ?L
  show ?R
  proof (intro allI impI)
    fix k1 k2
    assume h: "k1 \<noteq> k2 \<and> side (els k1) = side (els k2) \<and> line (els k1) = line (els k2)"
    have "inj_on (\<lambda>k. order (els k)) {k. side (els k) = side (els k1) \<and> line (els k) = line (els k1)}"
      using l unfolding orders_distinct_def Side_all Line_all group_distinct_iff by simp
    then show "order (els k1) \<noteq> order (els k2)"
      using h unfolding inj_on_def by auto
  qed
next
  assume r: ?R
  have "inj_on (\<lambda>k. order (els k)) {k. side (els k) = s \<and> line (els k) = l}" for s l
    unfolding inj_on_def using r by force
  then show ?L
    unfolding orders_distinct_def Side_all Line_all group_distinct_iff by simp
qed

lemma assign_orders_other:
  "k \<notin> fst ` set g \<Longrightarrow> assign_orders s l i g els k = els k"
  by (induction g arbitrary: i els) auto

lemma assign_orders_nth:
  "distinct (map fst g) \<Longrightarrow> j < length g \<Longrightarrow>
   assign_orders s l i g els (fst (g ! j)) =
     (els (fst (g ! j)))\<lparr>side := s, line := l, order := int (i + j)\<rparr>"
proof (induction g arbitrary: i els j)
  case Nil
  then show ?case by simp
next
  case (Cons a g)
  obtain k e where a: "a = (k, e)" by (cases a)
  show ?case
  proof (cases j)
    case 0
    have "k \<notin> fst ` set g" using Cons.prems(1) a by simp
    then show ?thesis using 0 a by (simp add: assign_orders_other)
  next
    case (Suc j')
    have j': "j' < length g" using Cons.prems(2) Suc by simp
    have ne: "fst (g ! j') \<noteq> k"
      using Cons.prems(1) a j' by (metis distinct.simps(2) fst_conv list.simps(9) nth_map nth_mem length_map)
    have "assign_orders s l (Suc i) g (els(k := (els k)\<lparr>side := s, line := l, order := int i\<rparr>)) (fst (g ! j')) =
          ((els(k := (els k)\<lparr>side := s, line := l, order := int i\<rparr>)) (fst (g ! j')))\<lparr>side := s, line := l, order := int (Suc i + j')\<rparr>"
      using Cons.IH [of j'] Cons.prems(1) j' by simp
    then show ?thesis using Suc a ne by simp
  qed
qed

lemma distinct_map_insort_key:
  "distinct (map g (insort_key f x xs)) \<longleftrightarrow> g x \<notin> g ` set xs \<and> distinct (map g xs)"
  by (induction xs) (auto simp: set_insort_key)

lemma distinct_map_sort_key:
  "distinct (map g (sort_key f xs)) = distinct (map g xs)"
  by (induction xs) (simp_all add: distinct_map_insort_key)

lemma distinct_fst_insert_at:
  assumes "distinct (map fst g)" and "fst x \<notin> fst ` set g"
  shows "distinct (map fst (take i g @ [x] @ drop i g))"
proof -
  have "distinct (map fst (take i g) @ map fst (drop i g))"
    using assms(1) by (metis append_take_drop_id map_append)
  moreover have "fst x \<notin> set (map fst (take i g))" "fst x \<notin> set (map fst (drop i g))"
    using assms(2) by (auto dest: in_set_takeD in_set_dropD)
  ultimately show ?thesis by auto
qed

lemma set_insert_at: "set (take i g @ [x] @ drop i g) = insert x (set g)"
proof -
  have "set (take i g) \<union> set (drop i g) = set g"
    by (metis append_take_drop_id set_append)
  then show ?thesis by auto
qed


lemma fst_filter_entries:
  "map fst (filter (\<lambda>(k, el). P k el) (entries els)) = filter (\<lambda>k. P k (els k)) keys"
  by (simp add: entries_def filter_map comp_def)

lemma assign_orders_redundant:
  assumes "distinct (map fst ng)" and "d \<in> fst ` set ng"
  shows "side (assign_orders s l i ng els d) = s \<and> line (assign_orders s l i ng els d) = l"
proof -
  obtain x where x: "x \<in> set ng" "fst x = d" using assms(2) by auto
  then obtain j where "j < length ng" and "fst (ng ! j) = d"
    by (auto simp: in_set_conv_nth)
  then show ?thesis using assign_orders_nth [OF assms(1), of j s l i els] by simp
qed

lemma handleDrop_elements:
  assumes "Some d \<noteq> targetId"
  shows "\<exists>ng. distinct (map fst ng) \<and>
              fst ` set ng = insert d {k. side (elements prev k) = tside \<and> line (elements prev k) = tline} \<and>
              elements (handleDrop (Some d) tside tline targetId prev) =
                assign_orders tside tline 0 ng (elements prev)"
proof -
  define els where "els = elements prev"
  define G where "G = sort_key (\<lambda>(k, el). order el)
      (filter (\<lambda>(k, el). side el = tside \<and> line el = tline \<and> k \<noteq> d) (entries els))"
  define i where "i = (case targetId of None \<Rightarrow> length G
      | Some t \<Rightarrow> (case findIndex (\<lambda>(k, el). k = t) G of None \<Rightarrow> length G | Some idx \<Rightarrow> idx))"
  define ng where "ng = take i G @ [(d, els d)] @ drop i G"
  have fe: "filter (\<lambda>(k, el). side el = tside \<and> line el = tline \<and> k \<noteq> d) (entries els) =
            map (\<lambda>k. (k, els k)) (filter (\<lambda>k. side (els k) = tside \<and> line (els k) = tline \<and> k \<noteq> d) keys)"
    by (simp add: entries_def filter_map comp_def)
  have dG: "distinct (map fst G)"
    unfolding G_def distinct_map_sort_key fe by (simp add: comp_def keys_distinct)
  have sG: "fst ` set G = {k. side (els k) = tside \<and> line (els k) = tline \<and> k \<noteq> d}"
    unfolding G_def fe by (auto simp: keys_UNIV image_iff)
  have dn: "distinct (map fst ng)"
    unfolding ng_def using dG sG by (intro distinct_fst_insert_at) auto
  have sn: "fst ` set ng = insert d {k. side (els k) = tside \<and> line (els k) = tline}"
    unfolding ng_def set_insert_at using sG by auto
  have red: "side (assign_orders tside tline 0 ng els d) = tside \<and> line (assign_orders tside tline 0 ng els d) = tline"
    using assign_orders_redundant [OF dn] sn by simp
  have "elements (handleDrop (Some d) tside tline targetId prev) =
          (let e1 = assign_orders tside tline 0 ng els;
               e2 = e1(d := (e1 d)\<lparr>side := tside\<rparr>)
           in e2(d := (e2 d)\<lparr>line := tline\<rparr>))"
    unfolding ng_def i_def G_def els_def using assms by (simp add: handleDrop_def Let_def)
  also have "\<dots> = assign_orders tside tline 0 ng els"
    using red by (simp add: Let_def fun_eq_iff)
  finally have "elements (handleDrop (Some d) tside tline targetId prev) =
                  assign_orders tside tline 0 ng els" .
  with dn sn show ?thesis unfolding els_def by blast
qed

text \<open>
  C9. If the \<open>order\<close> values are pairwise distinct within every (side, line) group,
  they are so again after \<open>handleDrop\<close>, whatever is dragged and wherever it is dropped;
  and every one of the eight slots keeps its id, its label and its text, so no slot is
  created or destroyed.
\<close>

theorem handleDrop_keeps_orders_distinct:
  assumes "orders_distinct (elements prev)"
  shows "orders_distinct (elements (handleDrop draggedId targetSide targetLine targetId prev)) \<and>
         (\<forall>k. elem_id (elements (handleDrop draggedId targetSide targetLine targetId prev) k) =
                elem_id (elements prev k) \<and>
              label (elements (handleDrop draggedId targetSide targetLine targetId prev) k) =
                label (elements prev k) \<and>
              text (elements (handleDrop draggedId targetSide targetLine targetId prev) k) =
                text (elements prev k))"
proof (cases "\<exists>d. draggedId = Some d \<and> Some d \<noteq> targetId")
  case False
  then have "handleDrop draggedId targetSide targetLine targetId prev = prev"
    by (cases draggedId) (auto simp: handleDrop_def)
  then show ?thesis using assms by simp
next
  case True
  then obtain d where d: "draggedId = Some d" "Some d \<noteq> targetId" by blast
  define els where "els = elements prev"
  define els' where "els' = elements (handleDrop draggedId targetSide targetLine targetId prev)"
  define N where "N = insert d {k. side (els k) = targetSide \<and> line (els k) = targetLine}"
  have "\<exists>ng. distinct (map fst ng) \<and> fst ` set ng = N \<and>
              els' = assign_orders targetSide targetLine 0 ng els"
    using handleDrop_elements [OF d(2), of prev targetSide targetLine]
    by (simp only: els'_def els_def N_def d(1))
  then obtain ng where ng: "distinct (map fst ng)" "fst ` set ng = N"
    "els' = assign_orders targetSide targetLine 0 ng els"
    by (elim exE conjE)
  have inN: "\<exists>j < length ng. fst (ng ! j) = k \<and>
               els' k = (els k)\<lparr>side := targetSide, line := targetLine, order := int j\<rparr>"
    if "k \<in> N" for k
  proof -
    have "k \<in> fst ` set ng" using that ng(2) by simp
    then obtain x where x: "x \<in> set ng" "fst x = k" by auto
    then obtain j where j: "j < length ng" "ng ! j = x"
      by (auto simp: in_set_conv_nth)
    have "els' (fst (ng ! j)) =
            (els (fst (ng ! j)))\<lparr>side := targetSide, line := targetLine, order := int j\<rparr>"
      using assign_orders_nth [OF ng(1) j(1), of targetSide targetLine 0 els]
      by (simp add: ng(3))
    then show ?thesis using j x(2) by blast
  qed
  have outN: "els' k = els k" if "k \<notin> N" for k
    using that ng(2,3) by (simp add: assign_orders_other)
  have fields: "elem_id (els' k) = elem_id (els k) \<and> label (els' k) = label (els k) \<and>
                text (els' k) = text (els k)" for k
  proof (cases "k \<in> N")
    case True
    then show ?thesis using inN [of k] by auto
  next
    case False
    then show ?thesis by (simp add: outN)
  qed
  have old: "order (els k1) \<noteq> order (els k2)"
    if "k1 \<noteq> k2" "side (els k1) = side (els k2)" "line (els k1) = line (els k2)" for k1 k2
    using assms that unfolding orders_distinct_iff els_def by blast
  have new: "order (els' k1) \<noteq> order (els' k2)"
    if h: "k1 \<noteq> k2" "side (els' k1) = side (els' k2)" "line (els' k1) = line (els' k2)" for k1 k2
  proof (cases "k1 \<in> N"; cases "k2 \<in> N")
    assume a: "k1 \<in> N" "k2 \<in> N"
    obtain j1 where j1: "j1 < length ng" "fst (ng ! j1) = k1" "order (els' k1) = int j1"
      using inN [OF a(1)] by auto
    obtain j2 where j2: "j2 < length ng" "fst (ng ! j2) = k2" "order (els' k2) = int j2"
      using inN [OF a(2)] by auto
    have "j1 \<noteq> j2" using h(1) j1(2) j2(2) by auto
    then show ?thesis using j1(3) j2(3) by simp
  next
    assume a: "k1 \<in> N" "k2 \<notin> N"
    have "side (els' k1) = targetSide \<and> line (els' k1) = targetLine"
      using inN [OF a(1)] by auto
    moreover have "\<not> (side (els k2) = targetSide \<and> line (els k2) = targetLine)"
      using a(2) unfolding N_def by auto
    ultimately show ?thesis using h(2,3) outN [OF a(2)] by auto
  next
    assume a: "k1 \<notin> N" "k2 \<in> N"
    have "side (els' k2) = targetSide \<and> line (els' k2) = targetLine"
      using inN [OF a(2)] by auto
    moreover have "\<not> (side (els k1) = targetSide \<and> line (els k1) = targetLine)"
      using a(1) unfolding N_def by auto
    ultimately show ?thesis using h(2,3) outN [OF a(1)] by auto
  next
    assume a: "k1 \<notin> N" "k2 \<notin> N"
    then show ?thesis using old [of k1 k2] h by (simp add: outN)
  qed
  have "orders_distinct els'"
    unfolding orders_distinct_iff using new by blast
  then show ?thesis using fields unfolding els'_def els_def by blast
qed

lemma initial_orders_distinct: "orders_distinct (elements initial_settings)"
  by (simp add: orders_distinct_def group_of_def keys_def initial_elements_def
      initial_settings_def)

theorem handleDrop_keeps_orders_distinct_witness:
  "orders_distinct (elements initial_settings) \<and>
   orders_distinct
     (elements (handleDrop (Some K_gps) Right L1 (Some K_fNumber) initial_settings)) \<and>
   text (elements (handleDrop (Some K_gps) Right L1 (Some K_fNumber) initial_settings) K_gps) =
     text (elements initial_settings K_gps)"
  using handleDrop_keeps_orders_distinct [OF initial_orders_distinct,
      of "Some K_gps" Right L1 "Some K_fNumber"]
    initial_orders_distinct
  by simp
section \<open>Properties of the colour sampler\<close>

lemma findSecondary_None:
  "findSecondary d bs = None \<longleftrightarrow> (\<forall>b \<in> set bs. \<not> dist_rgb b d > 60)"
  by (induction bs) auto

text \<open>
  C6, as the code has it. When no bucket after the dominant one lies at Euclidean RGB
  distance greater than 60 from it, the secondary colour is pure black if the perceptual
  brightness \<open>0.299 R + 0.587 G + 0.114 B\<close> of the dominant colour is strictly greater
  than 128, and pure white otherwise.
\<close>

theorem fallback_black_iff_brighter_than_128:
  assumes "band img y h = Some data" and "buckets_of data = d # rest"
    and "\<forall>b \<in> set rest. \<not> dist_rgb b d > 60"
  shows "secondary (getDominantColors img y h) =
           (if brightness_of d > 128 then ''#000000'' else ''#ffffff'')"
proof -
  have "findSecondary d rest = None"
    using assms(3) by (simp add: findSecondary_None)
  then show ?thesis
    using assms(1,2) by (simp add: getDominantColors_def Let_def)
qed

lemma accumulate_replicate:
  "accumulate (concat (replicate n [r, g, b, a]) @ rest) m =
     accumulate rest
       ((bump_entry (r div quantizationFactor, g div quantizationFactor, b div quantizationFactor)
           r g b ^^ n) m)"
  by (induction n arbitrary: m) (simp_all add: funpow_swap1)

lemma bump_entry_funpow_head:
  "(bump_entry k r g b ^^ n) ((k, (c, sr, sg, sb)) # m) =
     (k, (c + n, sr + n * r, sg + n * g, sb + n * b)) # m"
  by (induction n arbitrary: c sr sg sb) (simp_all add: funpow_swap1)

lemma bump_entry_funpow_Nil:
  "(bump_entry k r g b ^^ Suc n) [] = [(k, (Suc n, Suc n * r, Suc n * g, Suc n * b))]"
  by (simp add: funpow_swap1 bump_entry_funpow_head)

lemma bump_entry_funpow_empty:
  "0 < n \<Longrightarrow> (bump_entry k r g b ^^ n) [] = [(k, (n, n * r, n * g, n * b))]"
  using bump_entry_funpow_Nil [where k = k and r = r and g = g and b = b and n = "n - 1"]
  by simp

lemma bump_entry_funpow_other:
  "k' \<noteq> k \<Longrightarrow> (bump_entry k r g b ^^ n) ((k', e) # m) = (k', e) # (bump_entry k r g b ^^ n) m"
  by (induction n arbitrary: m; cases e) (simp_all add: funpow_swap1)

lemma sqrt_gt_60: "sqrt x > 60 \<longleftrightarrow> x > 3600"
proof -
  have "sqrt 3600 = 60" using real_sqrt_abs [of 60] by simp
  then show ?thesis by (metis real_sqrt_less_iff)
qed

text \<open>
  The test \<open>dist > 60\<close> of the scan compares the sum of the squares with 3600, which
  makes \<open>findSecondary\<close> computable.
\<close>

lemma dist_rgb_gt_60:
  "dist_rgb b d > 60 \<longleftrightarrow>
     (int (b_r b) - int (b_r d))\<^sup>2 + (int (b_g b) - int (b_g d))\<^sup>2 +
     (int (b_b b) - int (b_b d))\<^sup>2 > 3600"
proof -
  let ?S = "(int (b_r b) - int (b_r d))\<^sup>2 + (int (b_g b) - int (b_g d))\<^sup>2 +
            (int (b_b b) - int (b_b d))\<^sup>2"
  have "(real (b_r b) - real (b_r d))\<^sup>2 + (real (b_g b) - real (b_g d))\<^sup>2 +
        (real (b_b b) - real (b_b d))\<^sup>2 = real_of_int ?S"
    by simp
  then have "dist_rgb b d > 60 \<longleftrightarrow> (3600 :: real) < real_of_int ?S"
    unfolding dist_rgb_def sqrt_gt_60 by (simp only:)
  also have "\<dots> \<longleftrightarrow> 3600 < ?S"
    using of_int_less_iff [where ?'a = real, of 3600 ?S] by simp
  finally show ?thesis .
qed

lemma findSecondary_code [code]:
  "findSecondary d [] = None"
  "findSecondary d (b # bs) =
     (if (int (b_r b) - int (b_r d))\<^sup>2 + (int (b_g b) - int (b_g d))\<^sup>2 +
         (int (b_b b) - int (b_b d))\<^sup>2 > 3600
      then Some b else findSecondary d bs)"
  by (simp_all add: dist_rgb_gt_60)

lemma grey_buckets:
  "buckets_of (concat (replicate 1000 [128, 128, 128, 255])) =
     [\<lparr>b_count = 1000, b_r = 128, b_g = 128, b_b = 128, b_hex = ''rgb(128, 128, 128)''\<rparr>]"
proof -
  have "accumulate (concat (replicate (Suc 999) [128, 128, 128, 255]) @ []) [] =
          [((4, 4, 4), (1000, 128000, 128000, 128000))]"
    unfolding accumulate_replicate
    by (simp add: quantizationFactor_def bump_entry_funpow_empty del: funpow.simps)
  then have "accumulate (concat (replicate 1000 [128, 128, 128, 255])) [] =
          [((4, 4, 4), (1000, 128000, 128000, 128000))]"
    by simp
  moreover have "showNat 128 = ''128''" by (simp add: showNat.simps)
  ultimately show ?thesis
    by (simp add: buckets_of_def mk_bucket_def round_div_def rgb_string_def)
qed


lemma two_tone_buckets:
  "buckets_of (concat (replicate 600 [200, 200, 200, 255]) @
               concat (replicate 400 [230, 230, 230, 255])) =
     [\<lparr>b_count = 600, b_r = 200, b_g = 200, b_b = 200, b_hex = ''rgb(200, 200, 200)''\<rparr>,
      \<lparr>b_count = 400, b_r = 230, b_g = 230, b_b = 230, b_hex = ''rgb(230, 230, 230)''\<rparr>]"
proof -
  have "accumulate (concat (replicate (Suc 599) [200, 200, 200, 255]) @
                    concat (replicate (Suc 399) [230, 230, 230, 255]) @ []) [] =
          [((6, 6, 6), (600, 120000, 120000, 120000)), ((7, 7, 7), (400, 92000, 92000, 92000))]"
    unfolding accumulate_replicate
    by (simp add: quantizationFactor_def bump_entry_funpow_other bump_entry_funpow_empty
        del: funpow.simps)
  then have "accumulate (concat (replicate 600 [200, 200, 200, 255]) @
                    concat (replicate 400 [230, 230, 230, 255])) [] =
          [((6, 6, 6), (600, 120000, 120000, 120000)), ((7, 7, 7), (400, 92000, 92000, 92000))]"
    by simp
  moreover have "showNat 200 = ''200''" "showNat 230 = ''230''"
    by (simp_all add: showNat.simps)
  ultimately show ?thesis
    by (simp add: buckets_of_def mk_bucket_def round_div_def rgb_string_def)
qed

theorem fallback_black_iff_brighter_than_128_witness:
  "secondary (getDominantColors two_tone_image 2550 450) = ''#000000''"
  using fallback_black_iff_brighter_than_128 [where img = two_tone_image and y = 2550 and h = 450
      and data = "concat (replicate 600 [200, 200, 200, 255]) @
                  concat (replicate 400 [230, 230, 230, 255])"
      and d = "\<lparr>b_count = 600, b_r = 200, b_g = 200, b_b = 200, b_hex = ''rgb(200, 200, 200)''\<rparr>"
      and rest = "[\<lparr>b_count = 400, b_r = 230, b_g = 230, b_b = 230,
                    b_hex = ''rgb(230, 230, 230)''\<rparr>]"]
  by (simp add: two_tone_image_def two_tone_buckets dist_rgb_def sqrt_gt_60 brightness_of_def)

text \<open>
  C6 as stated fails at brightness exactly 128: a band of uniform (128, 128, 128) has
  one bucket, of brightness 128, and the fallback is white, not black.
\<close>

theorem fallback_at_128_counterexample:
  "buckets_of (concat (replicate 1000 [128, 128, 128, 255])) =
     [\<lparr>b_count = 1000, b_r = 128, b_g = 128, b_b = 128, b_hex = ''rgb(128, 128, 128)''\<rparr>] \<and>
   brightness_of
     \<lparr>b_count = 1000, b_r = 128, b_g = 128, b_b = 128, b_hex = ''rgb(128, 128, 128)''\<rparr> = 128 \<and>
   secondary (getDominantColors grey_image 2550 450) = ''#ffffff'' \<and>
   secondary (getDominantColors grey_image 2550 450) \<noteq> ''#000000''"
  by (simp add: grey_image_def getDominantColors_def grey_buckets brightness_of_def)
section \<open>Properties of the fit pass and of the canvas size\<close>

lemma final_processRender:
  "final (processRender mt img lImg settings logoFailed) =
     fitPass mt settings logoFailed lImg (naturalWidth img)
       (initLayout (naturalWidth img) (naturalHeight img))"
  by (simp add: processRender_def Let_def split: prod.splits)

text \<open>
  C1. Let \<open>lay0\<close> be the sizing values before the overflow check and \<open>totalW\<close> the
  measured total content width: left block width + right block width + 2 x padding +
  0.5 x banner height. If \<open>totalW\<close> exceeds the image width, the final values are those
  of \<open>lay0\<close>, each multiplied by the one factor \<open>max 0.6 (imageWidth / totalW)\<close>;
  otherwise they are those of \<open>lay0\<close>, unchanged.
\<close>

theorem overflow_scale_applied_uniformly:
  assumes "lay0 = determineLogoWidth logoFailed lImg
                    (initLayout (naturalWidth img) (naturalHeight img))"
    and "totalW = totalContentWidth mt settings lay0"
    and "safeScale = max 0.6 (real (naturalWidth img) / totalW)"
    and "fin = final (processRender mt img lImg settings logoFailed)"
  shows "totalW = fst (blockWidths mt settings lay0) + snd (blockWidths mt settings lay0) +
                 2 * padding lay0 + 0.5 * bannerH lay0 \<and>
         (totalW > real (naturalWidth img) \<longrightarrow>
            bannerH fin = bannerH lay0 * safeScale \<and>
            mainFontSize fin = mainFontSize lay0 * safeScale \<and>
            subFontSize fin = subFontSize lay0 * safeScale \<and>
            padding fin = padding lay0 * safeScale \<and>
            logoH fin = logoH lay0 * safeScale \<and>
            logoW fin = logoW lay0 * safeScale \<and>
            logoRealH fin = logoRealH lay0 * safeScale) \<and>
         (\<not> totalW > real (naturalWidth img) \<longrightarrow> fin = lay0)"
proof -
  have t: "totalW = fst (blockWidths mt settings lay0) + snd (blockWidths mt settings lay0) +
                 2 * padding lay0 + 0.5 * bannerH lay0"
    unfolding assms(2) by (simp add: totalContentWidth_def split: prod.splits)
  have f: "fin = resolveFit mt settings logoFailed lImg (naturalWidth img) lay0"
    unfolding assms(4) assms(1) final_processRender fitPass_def ..
  show ?thesis
    using t unfolding f resolveFit_def assms(2) [symmetric]
    by (simp add: Let_def assms(3))
qed


lemma example_lay0:
  "determineLogoWidth False example_logo (initLayout 4000 3000) =
     \<lparr>bannerH = 360, mainFontSize = 86, subFontSize = 72, padding = 126,
      logoH = 684 / 5, logoW = 2052 / 5, logoRealH = 684 / 5\<rparr>"
  by (simp add: determineLogoWidth_def initLayout_def example_logo_def
      BANNER_HEIGHT_PERCENTAGE_def PADDING_PERCENTAGE_def Let_def)

lemma typical_lines:
  "map text (lineItems typical_settings Left L1) = [''NIKON Z 6'', []]"
  "map text (lineItems typical_settings Left L2) = []"
  "map text (lineItems typical_settings Right L1) = [''24mm'', ''f/1.8'', ''ISO400'', ''1/125s'']"
  "map text (lineItems typical_settings Right L2) = [''2024.05.01 10:30:00'']"
  by (simp_all add: lineItems_def values_of_def keys_def typical_settings_def
      typical_elements_def initial_elements_def initial_settings_def)

lemma long_lines:
  "map text (lineItems (long_settings n) Left L1) = [replicate n (CHR ''M''), []]"
  "map text (lineItems (long_settings n) Left L2) = []"
  "map text (lineItems (long_settings n) Right L1) = [''24mm'', ''f/1.8'', ''ISO400'', ''1/125s'']"
  "map text (lineItems (long_settings n) Right L2) = [''2024.05.01 10:30:00'']"
  by (simp_all add: lineItems_def values_of_def keys_def typical_settings_def long_settings_def
      set_text_def typical_elements_def initial_elements_def initial_settings_def)

lemma example_logoPosition:
  "logoPosition typical_settings = LogoLeft" "logoPosition (long_settings n) = LogoLeft"
  by (simp_all add: typical_settings_def long_settings_def initial_settings_def)

lemma measureLine_texts:
  "measureLine mt items fontSize isBold font0 =
     (if map text items = [] then (0, font0)
      else (sumWidths (mt (Font isBold fontSize)) (mt (Font isBold fontSize) SEPARATOR_CHAR * 2.5)
              (filter (\<lambda>t. t \<noteq> []) (map text items)) 0,
            Font isBold fontSize))"
  by (simp add: measureLine_def Let_def filter_map comp_def)

lemma example_totals:
  "totalContentWidth example_measure typical_settings
     \<lparr>bannerH = 360, mainFontSize = 86, subFontSize = 72, padding = 126,
      logoH = 684 / 5, logoW = 2052 / 5, logoRealH = 684 / 5\<rparr> = 14697 / 5"
  "totalContentWidth example_measure (long_settings 70)
     \<lparr>bannerH = 360, mainFontSize = 86, subFontSize = 72, padding = 126,
      logoH = 684 / 5, logoW = 2052 / 5, logoRealH = 684 / 5\<rparr> = 6087"
  "totalContentWidth example_measure (long_settings 400)
     \<lparr>bannerH = 360, mainFontSize = 86, subFontSize = 72, padding = 126,
      logoH = 684 / 5, logoW = 2052 / 5, logoRealH = 684 / 5\<rparr> = 23115"
  by (simp_all add: totalContentWidth_def blockWidths_def measureLine_texts typical_lines
      long_lines example_logoPosition example_measure_def SEPARATOR_CHAR_def Let_def)

theorem overflow_scale_applied_uniformly_witness:
  "final (processRender example_measure grey_image example_logo (long_settings 400) False) =
     \<lparr>bannerH = 216, mainFontSize = 258 / 5, subFontSize = 216 / 5, padding = 378 / 5,
      logoH = 2052 / 25, logoW = 6156 / 25, logoRealH = 2052 / 25\<rparr> \<and>
   final (processRender example_measure grey_image example_logo typical_settings False) =
     \<lparr>bannerH = 360, mainFontSize = 86, subFontSize = 72, padding = 126,
      logoH = 684 / 5, logoW = 2052 / 5, logoRealH = 684 / 5\<rparr>"
  using overflow_scale_applied_uniformly [where mt = example_measure and img = grey_image
      and lImg = example_logo and settings = "long_settings 400" and logoFailed = False,
      OF refl refl refl refl]
    overflow_scale_applied_uniformly [where mt = example_measure and img = grey_image
      and lImg = example_logo and settings = typical_settings and logoFailed = False,
      OF refl refl refl refl]
  by (simp add: grey_image_def example_lay0 example_totals layout.equality)
















section \<open>Properties of the render when the logo fails to load\<close>




















section \<open>Properties of the metadata normalisation\<close>

subsection \<open>Date\<close>

lemma split_space_no_space:
  "CHR '' '' \<notin> set s \<Longrightarrow> split_space s = [s]"
  by (induction s) auto

lemma split_space_two:
  "CHR '' '' \<notin> set d \<Longrightarrow> split_space (d @ CHR '' '' # rest) = d # split_space rest"
  by (induction d) (auto split: list.splits)

lemma replace_colons_append:
  "replace_colons (a @ b) = replace_colons a @ replace_colons b"
  by (simp add: replace_colons_def)

lemma replace_colons_Cons:
  "replace_colons (c # s) = (if c = CHR '':'' then CHR ''.'' else c) # replace_colons s"
  by (simp add: replace_colons_def)

lemma replace_colons_digits:
  "list_all isDigit s \<Longrightarrow> replace_colons s = s"
  by (induction s) (auto simp: replace_colons_def isDigit_def)

lemma digits_no_space: "list_all isDigit s \<Longrightarrow> CHR '' '' \<notin> set s"
  by (induction s) (auto simp: isDigit_def)

lemma formatDate_date_time:
  assumes "CHR '' '' \<notin> set d" and "CHR '' '' \<notin> set tm"
  shows "formatDate now (d @ '' '' @ tm) = replace_colons d @ '' '' @ tm"
  using assms
  by (simp add: formatDate_def split_space_two split_space_no_space or_else_def)

lemma dateTime_extract:
  "dateTime (extractExifData pf now t) = formatDate now (desc t ''DateTimeOriginal'')"
  by (simp add: extractExifData_def Let_def split: prod.splits)

text \<open>
  C3, as the code has it. For a tag map whose \<open>DateTimeOriginal\<close> description is
  \<open>YYYY:MM:DD HH:MM:SS\<close>, \<open>extractExifData\<close> returns \<open>YYYY.MM.DD HH:MM:SS\<close>: the colons
  of the date part become dots, and the time of day is kept as it is, seconds included.
\<close>

theorem date_keeps_time_of_day:
  assumes "t ''DateTimeOriginal'' = Some tg"
    and "description tg = y @ '':'' @ mo @ '':'' @ dd @ '' '' @ hh @ '':'' @ mi @ '':'' @ ss"
    and "list_all isDigit y" and "list_all isDigit mo" and "list_all isDigit dd"
    and "list_all isDigit hh" and "list_all isDigit mi" and "list_all isDigit ss"
  shows "dateTime (extractExifData pf now t) =
           y @ ''.'' @ mo @ ''.'' @ dd @ '' '' @ hh @ '':'' @ mi @ '':'' @ ss"
proof -
  let ?d = "y @ '':'' @ mo @ '':'' @ dd" and ?tm = "hh @ '':'' @ mi @ '':'' @ ss"
  have d: "CHR '' '' \<notin> set ?d" and tm: "CHR '' '' \<notin> set ?tm"
    using assms(3-8) by (auto dest: digits_no_space)
  have "desc t ''DateTimeOriginal'' = ?d @ '' '' @ ?tm"
    using assms(1,2) by (simp add: desc_def)
  then have "dateTime (extractExifData pf now t) = replace_colons ?d @ '' '' @ ?tm"
    using formatDate_date_time [OF d tm] by (simp only: dateTime_extract)
  moreover have "replace_colons ?d = y @ ''.'' @ mo @ ''.'' @ dd"
    using assms(3-5) by (simp add: replace_colons_append replace_colons_Cons replace_colons_digits)
  ultimately show ?thesis by simp
qed

theorem date_keeps_time_of_day_witness:
  "dateTime (extractExifData (\<lambda>s. None) example_clock example_tags) = ''2024.05.01 10:30:00''"
  using date_keeps_time_of_day [where t = example_tags
      and tg = "mk_tag ''2024:05:01 10:30:00''" and y = "''2024''" and mo = "''05''"
      and dd = "''01''" and hh = "''10''" and mi = "''30''" and ss = "''00''"
      and pf = "\<lambda>s. None" and now = example_clock]
  by (simp add: example_tags_def mk_tag_def isDigit_def)

text \<open>
  C3 as stated fails: the seconds are not dropped. The description
  \<open>2024:05:01 10:30:00\<close> does not map to \<open>2024.05.01 10:30\<close>.
\<close>

theorem date_seconds_dropped_counterexample:
  "dateTime (extractExifData (\<lambda>s. None) example_clock example_tags) \<noteq> ''2024.05.01 10:30''"
  by (simp add: dateTime_extract formatDate_def desc_def example_tags_def mk_tag_def
      replace_colons_def or_else_def)

subsection \<open>GPS\<close>












subsection \<open>ISO, f-number and exposure time\<close>

lemma onDrop_iso_text:
  "text (elements (onDrop_settings data prev) K_iso) =
     (if iso data \<noteq> [] then ''ISO'' @ iso data else '''')"
  by (simp add: onDrop_settings_def set_text_def)

lemma extract_iso: "iso (extractExifData pf now t) = desc t ''ISOSpeedRatings''"
  by (simp add: extractExifData_def Let_def split: prod.splits)

lemma extract_fNumber:
  "fNumber (extractExifData pf now t) =
     (let f = desc t ''FNumber'' in if f \<noteq> [] \<and> \<not> startsWith f ''f/'' then ''f/'' @ f else f)"
  by (simp add: extractExifData_def Let_def split: prod.splits)

lemma extract_exposureTime:
  "exposureTime (extractExifData pf now t) =
     (let e = desc t ''ExposureTime'' in if e \<noteq> [] \<and> \<not> endsWith e ''s'' then e @ ''s'' else e)"
  by (simp add: extractExifData_def Let_def split: prod.splits)

text \<open>
  C8. With a non-empty \<open>ISOSpeedRatings\<close> description, the text of the ISO slot after
  \<open>extractExifData\<close> and the settings update of \<open>onDrop\<close> is the literal \<open>ISO\<close> followed
  by the description; without the tag it is empty.
\<close>

theorem iso_text_prefixed:
  "(t ''ISOSpeedRatings'' = Some tg \<and> description tg \<noteq> [] \<longrightarrow>
      text (elements (onDrop_settings (extractExifData pf now t) prev) K_iso) =
        ''ISO'' @ description tg) \<and>
   (t ''ISOSpeedRatings'' = None \<longrightarrow>
      text (elements (onDrop_settings (extractExifData pf now t) prev) K_iso) = '''')"
  by (simp add: onDrop_iso_text extract_iso desc_def)

theorem iso_text_prefixed_witness:
  "text (elements (onDrop_settings (extractExifData (\<lambda>s. None) example_clock example_tags)
           initial_settings) K_iso) = ''ISO400'' \<and>
   text (elements (onDrop_settings (extractExifData (\<lambda>s. None) example_clock Map.empty)
           initial_settings) K_iso) = ''''"
  using iso_text_prefixed [where t = example_tags and tg = "mk_tag ''400''"
      and pf = "\<lambda>s. None" and now = example_clock and prev = initial_settings]
    iso_text_prefixed [where t = Map.empty and tg = "mk_tag ''400''"
      and pf = "\<lambda>s. None" and now = example_clock and prev = initial_settings]
  by (simp add: example_tags_def mk_tag_def)

text \<open>
  C10. A non-empty f-number description that already starts with \<open>f/\<close>, and a non-empty
  exposure-time description that already ends with \<open>s\<close>, come out of \<open>extractExifData\<close>
  unchanged.
\<close>

theorem fNumber_exposure_pass_through:
  "(t ''FNumber'' = Some ft \<and> description ft \<noteq> [] \<and> startsWith (description ft) ''f/'' \<longrightarrow>
      fNumber (extractExifData pf now t) = description ft) \<and>
   (t ''ExposureTime'' = Some et \<and> description et \<noteq> [] \<and> endsWith (description et) ''s'' \<longrightarrow>
      exposureTime (extractExifData pf now t) = description et)"
  by (simp add: extract_fNumber extract_exposureTime desc_def)

theorem fNumber_exposure_pass_through_witness:
  "fNumber (extractExifData (\<lambda>s. None) example_clock example_tags_normalized) = ''f/1.8'' \<and>
   exposureTime (extractExifData (\<lambda>s. None) example_clock example_tags_normalized) = ''1/125s''"
  using fNumber_exposure_pass_through [where t = example_tags_normalized
      and ft = "mk_tag ''f/1.8''" and et = "mk_tag ''1/125s''" and pf = "\<lambda>s. None"
      and now = example_clock]
  by (simp add: example_tags_normalized_def mk_tag_def startsWith_def endsWith_def)

end
